theory Spec2Isabelle
  imports Main "HOL-Library.Multiset"
begin

section \<open>FeedSieve: the five variants of the class\<close>

text \<open>
  The repository holds five copies of the class \<^verbatim>\<open>FeedSieve\<close>, at different stages of
  its growth. They are told apart here by a suffix:
  \<^item> \<open>v1\<close>: \<^verbatim>\<open>src/js/app.js\<close> (type filter, search, sort);
  \<^item> \<open>v2\<close>: \<^verbatim>\<open>src/site/js/app.js\<close>, lines 1 to 232 (defaults for absent fields);
  \<^item> \<open>v3\<close>: \<^verbatim>\<open>src/unnamed/part_000\<close> (today/week filters, source filter);
  \<^item> \<open>v4\<close>: \<^verbatim>\<open>src/site/js/app.js\<close>, lines 234 to 892 (categories, one storage key per
    read item);
  \<^item> \<open>v5\<close>: \<^verbatim>\<open>src/js/app.1766840000.js\<close> (categories, a set of read items).
  A function whose text is the same in several variants is defined once, without suffix.
  Rendering (the DOM) carries no data and is left out, but for the one call into it that
  can throw inside a function of the model (\<^verbatim>\<open>querySelector\<close> in v4).
\<close>

subsection \<open>JavaScript values\<close>

text \<open>
  Primitive values, for the fields that hold an opaque identifier (\<^verbatim>\<open>id\<close>,
  \<^verbatim>\<open>source_id\<close>: a string or an integer; \<open>JUndefined\<close> when the property is absent).
  Numbers are the integers; fractions and magnitudes from \<^verbatim>\<open>1e21\<close> on, which print in
  another notation, are outside the model.
\<close>

datatype prim = JUndefined | JNull | JBool bool | JNum int | JStr string

text \<open>What \<^verbatim>\<open>JSON.parse\<close> returns: a primitive, an array or an object.\<close>

datatype json = JPrim prim | JArr "json list" | JObj "(string \<times> json) list"

datatype js_error = SyntaxError | TypeError

definition digit_char :: "nat \<Rightarrow> char" where
  "digit_char d = ''0123456789'' ! d"

fun dec_nat :: "nat \<Rightarrow> string" where
  "dec_nat n = (if n < 10 then [digit_char n] else dec_nat (n div 10) @ [digit_char (n mod 10)])"

declare dec_nat.simps [simp del]

definition dec_int :: "int \<Rightarrow> string" where
  "dec_int i = (if i < 0 then CHR ''-'' # dec_nat (nat (- i)) else dec_nat (nat i))"

text \<open>\<^verbatim>\<open>String(v)\<close>, and the coercion of \<^verbatim>\<open>'read_' + v\<close>, on a primitive.\<close>

fun String :: "prim \<Rightarrow> string" where
  "String JUndefined = ''undefined''"
| "String JNull = ''null''"
| "String (JBool b) = (if b then ''true'' else ''false'')"
| "String (JNum n) = dec_int n"
| "String (JStr s) = s"

text \<open>
  A text field of an article is \<open>None\<close> when the property is absent (\<^verbatim>\<open>undefined\<close>).
  \<open>truthy\<close> is the test that \<^verbatim>\<open>x || y\<close>, \<^verbatim>\<open>!x\<close> and \<^verbatim>\<open>if (x)\<close> make on such a
  field: absent and the empty string are falsy. \<open>or_else\<close> is \<^verbatim>\<open>x || y\<close> itself, and
  \<open>template\<close> is the text \<^verbatim>\<open>${x}\<close> puts into a template literal.
\<close>

definition truthy :: "string option \<Rightarrow> bool" where
  "truthy x = (case x of None \<Rightarrow> False | Some s \<Rightarrow> s \<noteq> [])"

definition or_else :: "string option \<Rightarrow> string option \<Rightarrow> string option" where
  "or_else x y = (if truthy x then x else y)"

definition template :: "string option \<Rightarrow> string" where
  "template x = (case x of None \<Rightarrow> ''undefined'' | Some s \<Rightarrow> s)"

text \<open>
  \<^verbatim>\<open>toLowerCase\<close> on the ASCII letters; a string is a list of bytes here, and the bytes of
  other scripts are left as they are.
\<close>

definition toLowerCase_char :: "char \<Rightarrow> char" where
  "toLowerCase_char c =
     (case map_of (zip ''ABCDEFGHIJKLMNOPQRSTUVWXYZ'' ''abcdefghijklmnopqrstuvwxyz'') c of
        None \<Rightarrow> c
      | Some l \<Rightarrow> l)"

definition toLowerCase :: "string \<Rightarrow> string" where
  "toLowerCase s = map toLowerCase_char s"

fun startsWith :: "string \<Rightarrow> string \<Rightarrow> bool" where
  "startsWith s [] = True"
| "startsWith [] (q # qs) = False"
| "startsWith (c # cs) (q # qs) = (c = q \<and> startsWith cs qs)"

text \<open>\<^verbatim>\<open>s.includes(q)\<close> on strings: \<open>q\<close> starts at some position of \<open>s\<close>.\<close>

fun String_includes :: "string \<Rightarrow> string \<Rightarrow> bool" where
  "String_includes [] q = (q = [])"
| "String_includes (c # cs) q = (startsWith (c # cs) q \<or> String_includes cs q)"

subsection \<open>Dates\<close>

text \<open>
  A \<^verbatim>\<open>Date\<close> is its time value: \<open>Some t\<close>, milliseconds since the epoch, or \<open>None\<close> for
  the invalid date (time value \<^verbatim>\<open>NaN\<close>). The parser of date strings, the clock and the
  local time zone belong to the browser and are parameters: \<open>Date_parse s\<close> is the time
  value of \<^verbatim>\<open>new Date(s)\<close>, \<open>now\<close> that of \<^verbatim>\<open>new Date()\<close>, and \<open>LocalTZA t\<close> the offset
  of local time from UTC at \<open>t\<close>. One pass of the filter over the articles reads the
  same time from the clock for each of them.
\<close>

record env =
  Date_parse :: "string \<Rightarrow> int option"
  now :: int
  LocalTZA :: "int \<Rightarrow> int"

definition msPerDay :: int where
  "msPerDay = 24 * 60 * 60 * 1000"

definition Day :: "int \<Rightarrow> int" where
  "Day t = t div msPerDay"

definition LocalTime :: "env \<Rightarrow> int \<Rightarrow> int" where
  "LocalTime e t = t + LocalTZA e t"

text \<open>
  \<^verbatim>\<open>toDateString()\<close> prints the weekday, month, day and year of the local calendar day,
  and \<^verbatim>\<open>Invalid Date\<close> for the invalid date. Two printed days are the same text exactly
  when they are the same day, so the model keeps the number of the day in place of its
  text; \<open>None\<close> stands for \<^verbatim>\<open>Invalid Date\<close>.
\<close>

definition toDateString :: "env \<Rightarrow> int option \<Rightarrow> int option" where
  "toDateString e d = (case d of None \<Rightarrow> None | Some t \<Rightarrow> Some (Day (LocalTime e t)))"

text \<open>\<^verbatim>\<open>isToday\<close> and \<^verbatim>\<open>isThisWeek\<close>: the same text in v3, v4 and v5.\<close>

definition isToday :: "env \<Rightarrow> string option \<Rightarrow> bool" where
  "isToday e dateStr =
     (case dateStr of
        None \<Rightarrow> False
      | Some s \<Rightarrow>
          if s = [] then False
          else (let date = Date_parse e s; today = Some (now e)
                in toDateString e date = toDateString e today))"

definition isThisWeek :: "env \<Rightarrow> string option \<Rightarrow> bool" where
  "isThisWeek e dateStr =
     (case dateStr of
        None \<Rightarrow> False
      | Some s \<Rightarrow>
          if s = [] then False
          else (let date = Date_parse e s; weekAgo = now e - 7 * 24 * 60 * 60 * 1000
                in case date of None \<Rightarrow> False | Some t \<Rightarrow> weekAgo \<le> t))"

subsection \<open>Sorting an array with a comparator\<close>

text \<open>
  \<^verbatim>\<open>Array.prototype.sort(cmp)\<close>. The comparator returns a number, \<open>None\<close> for
  \<^verbatim>\<open>NaN\<close>, which the language takes for \<open>0\<close> (\<open>SortCompare\<close>). The language asks for a
  stable sort and leaves the algorithm open; the model is the stable insertion sort. With
  a comparator that is a consistent order every stable sort returns the same array.
\<close>

definition SortCompare :: "('a \<Rightarrow> 'a \<Rightarrow> int option) \<Rightarrow> 'a \<Rightarrow> 'a \<Rightarrow> int" where
  "SortCompare cmp x y = (case cmp x y of None \<Rightarrow> 0 | Some v \<Rightarrow> v)"

fun insert_sorted :: "('a \<Rightarrow> 'a \<Rightarrow> int option) \<Rightarrow> 'a \<Rightarrow> 'a list \<Rightarrow> 'a list" where
  "insert_sorted cmp x [] = [x]"
| "insert_sorted cmp x (y # ys) =
     (if SortCompare cmp x y \<le> 0 then x # y # ys else y # insert_sorted cmp x ys)"

definition Array_sort :: "('a \<Rightarrow> 'a \<Rightarrow> int option) \<Rightarrow> 'a list \<Rightarrow> 'a list" where
  "Array_sort cmp xs = foldr (insert_sorted cmp) xs []"

text \<open>\<^verbatim>\<open>x - y\<close> on numbers: \<^verbatim>\<open>NaN\<close> when either side is.\<close>

definition minus_num :: "int option \<Rightarrow> int option \<Rightarrow> int option" where
  "minus_num x y =
     (case x of None \<Rightarrow> None | Some a \<Rightarrow> (case y of None \<Rightarrow> None | Some b \<Rightarrow> Some (a - b)))"

subsection \<open>Articles and the state of the view\<close>

text \<open>
  An article of the feed document, with the fields the filters, the sort, the category
  index and the read state look at. Each field has the type section 3 of the
  specification gives it and may be absent: a text is \<open>None\<close> when the property is
  missing, an identifier \<open>JUndefined\<close>.
\<close>

record article =
  item_id :: prim
  title :: "string option"
  summary :: "string option"
  source_type :: "string option"
  source_id :: prim
  source_name :: "string option"
  published_at :: "string option"
  processed_at :: "string option"
  rating :: "int option"
  labels :: "string list option"

text \<open>\<^verbatim>\<open>this.currentSource = { id: sourceId, type: sourceType }\<close>\<close>

record source_ref =
  ref_id :: prim
  ref_type :: prim

text \<open>
  The fields of \<^verbatim>\<open>this\<close> that \<^verbatim>\<open>applyFilters\<close> and \<^verbatim>\<open>sortItems\<close> read and write.
  \<open>currentSource\<close> and \<open>currentCategory\<close> are \<open>None\<close> for \<^verbatim>\<open>null\<close>; v1 and v2 have
  neither, and v3 has no \<open>currentCategory\<close>.
\<close>

record feed =
  items :: "article list"
  filteredItems :: "article list"
  currentFilter :: string
  currentSource :: "source_ref option"
  currentCategory :: "string option"
  searchQuery :: string
  sortBy :: string

subsection \<open>v1: \<^verbatim>\<open>src/js/app.js\<close>\<close>

text \<open>\<^verbatim>\<open>`${item.title} ${item.summary} ${item.source_name}`.toLowerCase()\<close>\<close>

definition searchIn_v1 :: "article \<Rightarrow> string" where
  "searchIn_v1 item =
     toLowerCase (template (title item) @ '' '' @ template (summary item) @ '' ''
                  @ template (source_name item))"

text \<open>The function that \<^verbatim>\<open>applyFilters\<close> passes to \<^verbatim>\<open>this.items.filter\<close>.\<close>

definition keep_v1 :: "feed \<Rightarrow> article \<Rightarrow> bool" where
  "keep_v1 st item =
     (if currentFilter st \<noteq> ''all'' \<and> source_type item \<noteq> Some (currentFilter st) then False
      else if searchQuery st \<noteq> [] \<and> \<not> String_includes (searchIn_v1 item) (searchQuery st)
      then False
      else True)"

text \<open>\<^verbatim>\<open>new Date(a.processed_at || a.published_at)\<close>; \<^verbatim>\<open>new Date(undefined)\<close> is invalid.\<close>

definition sortDate_v1 :: "env \<Rightarrow> article \<Rightarrow> int option" where
  "sortDate_v1 e a =
     (case or_else (processed_at a) (published_at a) of
        None \<Rightarrow> None
      | Some s \<Rightarrow> Date_parse e s)"

text \<open>The comparator that \<^verbatim>\<open>sortItems\<close> passes to \<^verbatim>\<open>this.filteredItems.sort\<close>.\<close>

definition sort_cmp_v1 :: "env \<Rightarrow> string \<Rightarrow> article \<Rightarrow> article \<Rightarrow> int option" where
  "sort_cmp_v1 e sort_by a b =
     (if sort_by = ''rating'' then minus_num (rating b) (rating a)
      else (let dateA = sortDate_v1 e a; dateB = sortDate_v1 e b in minus_num dateB dateA))"

definition sortItems_v1 :: "env \<Rightarrow> string \<Rightarrow> article list \<Rightarrow> article list" where
  "sortItems_v1 e sort_by xs = Array_sort (sort_cmp_v1 e sort_by) xs"

definition applyFilters_v1 :: "env \<Rightarrow> feed \<Rightarrow> feed" where
  "applyFilters_v1 e st =
     st\<lparr>filteredItems := sortItems_v1 e (sortBy st) (filter (keep_v1 st) (items st))\<rparr>"

subsection \<open>What v2 to v5 share\<close>

text \<open>\<^verbatim>\<open>`${item.title} ${item.summary} ${item.source_name || ''}`.toLowerCase()\<close>\<close>

definition searchIn :: "article \<Rightarrow> string" where
  "searchIn item =
     toLowerCase (template (title item) @ '' '' @ template (summary item) @ '' ''
                  @ template (or_else (source_name item) (Some [])))"

text \<open>\<^verbatim>\<open>const itemType = item.source_type || 'rss'\<close>\<close>

definition itemType :: "article \<Rightarrow> string" where
  "itemType item = template (or_else (source_type item) (Some ''rss''))"

text \<open>\<^verbatim>\<open>item.rating || 0\<close>: an absent rating and the rating 0 both give 0.\<close>

definition rating_or_0 :: "article \<Rightarrow> int" where
  "rating_or_0 a = (case rating a of None \<Rightarrow> 0 | Some r \<Rightarrow> if r \<noteq> 0 then r else 0)"

text \<open>
  \<^verbatim>\<open>new Date(a.published_at || a.processed_at || 0)\<close>: the date of the first field that
  is truthy, and \<^verbatim>\<open>new Date(0)\<close>, the epoch, when neither is.
\<close>

definition sortDate :: "env \<Rightarrow> article \<Rightarrow> int option" where
  "sortDate e a =
     (let d = or_else (published_at a) (processed_at a)
      in if truthy d then Date_parse e (template d) else Some 0)"

text \<open>The comparator of \<^verbatim>\<open>sortItems\<close>, the same text in v2, v3, v4 and v5.\<close>

definition sort_cmp :: "env \<Rightarrow> string \<Rightarrow> article \<Rightarrow> article \<Rightarrow> int option" where
  "sort_cmp e sort_by a b =
     (if sort_by = ''rating'' then Some (rating_or_0 b - rating_or_0 a)
      else (let dateA = sortDate e a; dateB = sortDate e b in minus_num dateB dateA))"

definition sortItems :: "env \<Rightarrow> string \<Rightarrow> article list \<Rightarrow> article list" where
  "sortItems e sort_by xs = Array_sort (sort_cmp e sort_by) xs"

subsection \<open>v2: \<^verbatim>\<open>src/site/js/app.js\<close>, the first class\<close>

definition keep_v2 :: "feed \<Rightarrow> article \<Rightarrow> bool" where
  "keep_v2 st item =
     (if currentFilter st \<noteq> ''all'' \<and> itemType item \<noteq> currentFilter st then False
      else if searchQuery st \<noteq> [] \<and> \<not> String_includes (searchIn item) (searchQuery st)
      then False
      else True)"

definition applyFilters_v2 :: "env \<Rightarrow> feed \<Rightarrow> feed" where
  "applyFilters_v2 e st =
     st\<lparr>filteredItems := sortItems e (sortBy st) (filter (keep_v2 st) (items st))\<rparr>"

subsection \<open>v3, v4, v5: the filters by time, type, source and category\<close>

text \<open>\<^verbatim>\<open>const itemDate = item.published_at || item.processed_at\<close>\<close>

definition itemDate :: "article \<Rightarrow> string option" where
  "itemDate item = or_else (published_at item) (processed_at item)"

text \<open>\<^verbatim>\<open>const labels = item.labels || []\<close>; an array is truthy, also the empty one.\<close>

definition labels_or_empty :: "article \<Rightarrow> string list" where
  "labels_or_empty item = (case labels item of None \<Rightarrow> [] | Some ls \<Rightarrow> ls)"

text \<open>
  The blocks of the function passed to \<^verbatim>\<open>this.items.filter\<close>, named after their
  comments in the source; each is \<open>True\<close> when the block does not \<^verbatim>\<open>return false\<close>.
  No block writes anything or throws, so the function returns \<^verbatim>\<open>true\<close> exactly when no
  block returns \<^verbatim>\<open>false\<close>.
\<close>

definition time_filter :: "env \<Rightarrow> string \<Rightarrow> article \<Rightarrow> bool" where
  "time_filter e cf item =
     (if cf = ''today'' then isToday e (itemDate item)
      else if cf = ''week'' then isThisWeek e (itemDate item)
      else True)"

definition type_filter :: "string list \<Rightarrow> string \<Rightarrow> article \<Rightarrow> bool" where
  "type_filter types cf item = (if cf \<in> set types then itemType item = cf else True)"

definition source_filter :: "string \<Rightarrow> source_ref option \<Rightarrow> article \<Rightarrow> bool" where
  "source_filter cf cs item =
     (if cf = ''source'' then
        (case cs of None \<Rightarrow> True | Some r \<Rightarrow> String (source_id item) = String (ref_id r))
      else True)"

definition category_filter :: "string \<Rightarrow> string option \<Rightarrow> article \<Rightarrow> bool" where
  "category_filter cf cc item =
     (if cf = ''category'' \<and> truthy cc then template cc \<in> set (labels_or_empty item)
      else True)"

definition search_filter :: "string \<Rightarrow> article \<Rightarrow> bool" where
  "search_filter q item = (if q \<noteq> [] then String_includes (searchIn item) q else True)"

definition keep_v3 :: "env \<Rightarrow> feed \<Rightarrow> article \<Rightarrow> bool" where
  "keep_v3 e st item =
     (if \<not> time_filter e (currentFilter st) item then False
      else if \<not> type_filter [''rss'', ''youtube'', ''blog'', ''nitter''] (currentFilter st) item
      then False
      else if \<not> source_filter (currentFilter st) (currentSource st) item then False
      else if \<not> search_filter (searchQuery st) item then False
      else True)"

definition keep_v4 :: "env \<Rightarrow> feed \<Rightarrow> article \<Rightarrow> bool" where
  "keep_v4 e st item =
     (if \<not> time_filter e (currentFilter st) item then False
      else if \<not> type_filter [''rss'', ''youtube'', ''newsletter'', ''nitter'']
                  (currentFilter st) item
      then False
      else if \<not> source_filter (currentFilter st) (currentSource st) item then False
      else if \<not> category_filter (currentFilter st) (currentCategory st) item then False
      else if \<not> search_filter (searchQuery st) item then False
      else True)"

definition keep_v5 :: "env \<Rightarrow> feed \<Rightarrow> article \<Rightarrow> bool" where
  "keep_v5 e st item =
     (if \<not> time_filter e (currentFilter st) item then False
      else if \<not> type_filter [''rss'', ''youtube'', ''blog'', ''nitter''] (currentFilter st) item
      then False
      else if \<not> source_filter (currentFilter st) (currentSource st) item then False
      else if \<not> category_filter (currentFilter st) (currentCategory st) item then False
      else if \<not> search_filter (searchQuery st) item then False
      else True)"

definition applyFilters_v3 :: "env \<Rightarrow> feed \<Rightarrow> feed" where
  "applyFilters_v3 e st =
     st\<lparr>filteredItems := sortItems e (sortBy st) (filter (keep_v3 e st) (items st))\<rparr>"

definition applyFilters_v4 :: "env \<Rightarrow> feed \<Rightarrow> feed" where
  "applyFilters_v4 e st =
     st\<lparr>filteredItems := sortItems e (sortBy st) (filter (keep_v4 e st) (items st))\<rparr>"

definition applyFilters_v5 :: "env \<Rightarrow> feed \<Rightarrow> feed" where
  "applyFilters_v5 e st =
     st\<lparr>filteredItems := sortItems e (sortBy st) (filter (keep_v5 e st) (items st))\<rparr>"

subsection \<open>The category index\<close>

text \<open>
  \<^verbatim>\<open>buildCategoryIndex\<close> of v5. \<^verbatim>\<open>this.categories\<close> is an object used as a dictionary
  from label to \<^verbatim>\<open>{ count, icon }\<close>: a map of its own properties. The icons of
  \<^verbatim>\<open>categoryIcons\<close> are glyphs outside ASCII; the table is a parameter, and so is the icon
  of a label it does not list.

  The object is made by \<^verbatim>\<open>{}\<close> and inherits the members of \<^verbatim>\<open>Object.prototype\<close>. For a
  label that names one of them, \<^verbatim>\<open>this.categories[label]\<close> is the inherited member, a
  function or an object and so truthy: no entry is made, and \<^verbatim>\<open>count++\<close> writes a property
  of that member, not of the index. (For \<^verbatim>\<open>__proto__\<close> the member is \<^verbatim>\<open>Object.prototype\<close>
  itself, which gets a property \<^verbatim>\<open>count\<close> of value \<^verbatim>\<open>NaN\<close>; it is falsy, so a later
  label \<^verbatim>\<open>count\<close> still gets its entry.)
\<close>

definition Object_prototype_members :: "string list" where
  "Object_prototype_members =
     [''constructor'', ''__defineGetter__'', ''__defineSetter__'', ''hasOwnProperty'',
      ''__lookupGetter__'', ''__lookupSetter__'', ''isPrototypeOf'', ''propertyIsEnumerable'',
      ''toString'', ''valueOf'', ''__proto__'', ''toLocaleString'']"

record category =
  count_of :: nat
  icon :: string

definition count_label_v5 ::
  "(string \<rightharpoonup> string) \<Rightarrow> string \<Rightarrow> (string \<rightharpoonup> category) \<Rightarrow> string \<Rightarrow> (string \<rightharpoonup> category)"
where
  "count_label_v5 categoryIcons tag cats label =
     (if label \<in> set Object_prototype_members then cats
      else
        (let cats1 = (case cats label of
                        None \<Rightarrow>
                          cats(label \<mapsto> \<lparr>count_of = 0,
                                         icon = (case categoryIcons label of
                                                   None \<Rightarrow> tag
                                                 | Some i \<Rightarrow> if i = [] then tag else i)\<rparr>)
                      | Some c \<Rightarrow> cats)
         in case cats1 label of
              None \<Rightarrow> cats1
            | Some c \<Rightarrow> cats1(label \<mapsto> c\<lparr>count_of := count_of c + 1\<rparr>)))"

definition buildCategoryIndex_v5 ::
  "(string \<rightharpoonup> string) \<Rightarrow> string \<Rightarrow> article list \<Rightarrow> (string \<rightharpoonup> category)"
where
  "buildCategoryIndex_v5 categoryIcons tag xs =
     foldl (\<lambda>cats item. foldl (count_label_v5 categoryIcons tag) cats (labels_or_empty item))
       Map.empty xs"

text \<open>The count a category button shows; a label without entry has no button.\<close>

definition category_count :: "(string \<rightharpoonup> category) \<Rightarrow> string \<Rightarrow> nat" where
  "category_count cats label = (case cats label of None \<Rightarrow> 0 | Some c \<Rightarrow> count_of c)"

subsection \<open>The read state\<close>






text \<open>
  v5 keeps a \<^verbatim>\<open>Set\<close>, written back to the key \<^verbatim>\<open>readItems\<close> as one array. A set is the
  list of its elements in the order they were added. A primitive is in the set when an
  equal one was added; an array or an object that \<^verbatim>\<open>JSON.parse\<close> made is equal to nothing
  but itself, so each one read from the payload is an element of its own.
\<close>

definition Set_add_json :: "json list \<Rightarrow> json \<Rightarrow> json list" where
  "Set_add_json rs v =
     (case v of
        JPrim p \<Rightarrow> if v \<in> set rs then rs else rs @ [v]
      | JArr xs \<Rightarrow> rs @ [v]
      | JObj kvs \<Rightarrow> rs @ [v])"

definition Set_has :: "json list \<Rightarrow> prim \<Rightarrow> bool" where
  "Set_has rs x = (JPrim x \<in> set rs)"



text \<open>
  \<^verbatim>\<open>new Set(v)\<close>: empty for \<^verbatim>\<open>null\<close> and \<^verbatim>\<open>undefined\<close>, the elements of an array, the
  characters of a string, and a \<^verbatim>\<open>TypeError\<close> for a value that cannot be iterated.
\<close>

fun new_Set :: "json \<Rightarrow> js_error + json list" where
  "new_Set (JPrim JUndefined) = Inr []"
| "new_Set (JPrim JNull) = Inr []"
| "new_Set (JPrim (JBool b)) = Inl TypeError"
| "new_Set (JPrim (JNum n)) = Inl TypeError"
| "new_Set (JPrim (JStr s)) = Inr (foldl Set_add_json [] (map (\<lambda>c. JPrim (JStr [c])) s))"
| "new_Set (JArr xs) = Inr (foldl Set_add_json [] xs)"
| "new_Set (JObj kvs) = Inl TypeError"

record read_state =
  readItems :: "json list"
  localStorage :: "string \<rightharpoonup> string"

text \<open>
  The line of the constructor that makes the set:
  \<^verbatim>\<open>this.readItems = new Set(JSON.parse(localStorage.getItem('readItems') || '[]'))\<close>.
  \<^verbatim>\<open>JSON.parse\<close> belongs to the browser and is a parameter; it returns a value or throws
  a \<^verbatim>\<open>SyntaxError\<close>. Nothing catches what it or \<^verbatim>\<open>new Set\<close> throws, so the constructor
  throws it: \<open>Inl\<close>.
\<close>

definition constructor_v5 ::
  "(string \<Rightarrow> js_error + json) \<Rightarrow> (string \<rightharpoonup> string) \<Rightarrow> js_error + read_state"
where
  "constructor_v5 JSON_parse storage =
     (case JSON_parse (template (or_else (storage ''readItems'') (Some ''[]''))) of
        Inl err \<Rightarrow> Inl err
      | Inr v \<Rightarrow>
          (case new_Set v of
             Inl err \<Rightarrow> Inl err
           | Inr rs \<Rightarrow> Inr \<lparr>readItems = rs, localStorage = storage\<rparr>))"



definition isRead_v5 :: "read_state \<Rightarrow> prim \<Rightarrow> bool" where
  "isRead_v5 s itemId = Set_has (readItems s) itemId"

subsection \<open>The notions of the specification\<close>

text \<open>
  The effective date of an article in the words of the specification: \<^verbatim>\<open>published_at\<close>
  when present, otherwise \<^verbatim>\<open>processed_at\<close> when present, otherwise unknown. A field is
  present when it is there and not the empty string.
\<close>

definition effective_date :: "article \<Rightarrow> string option" where
  "effective_date a =
     (if truthy (published_at a) then published_at a
      else if truthy (processed_at a) then processed_at a
      else None)"

text \<open>The rank of an effective date in the sort by date: its time value, the epoch when
  the date is unknown.\<close>

definition date_rank :: "env \<Rightarrow> string option \<Rightarrow> int option" where
  "date_rank e d = (case d of None \<Rightarrow> Some 0 | Some s \<Rightarrow> Date_parse e s)"

text \<open>The rating with an absent rating treated as 0.\<close>

definition spec_rating :: "article \<Rightarrow> int" where
  "spec_rating a = (case rating a of None \<Rightarrow> 0 | Some r \<Rightarrow> r)"

subsection \<open>Sample data\<close>

text \<open>
  The state the constructors of v3, v4 and v5 set up (v1 and v2 start with the filter
  \<^verbatim>\<open>all\<close>), and an article with every field absent.
\<close>

definition initial_feed :: feed where
  "initial_feed =
     \<lparr>items = [], filteredItems = [], currentFilter = ''today'', currentSource = None,
      currentCategory = None, searchQuery = [], sortBy = ''date''\<rparr>"

definition blank :: article where
  "blank =
     \<lparr>item_id = JUndefined, title = None, summary = None, source_type = None,
      source_id = JUndefined, source_name = None, published_at = None, processed_at = None,
      rating = None, labels = None\<rparr>"

text \<open>
  The time values of a few date strings, as \<^verbatim>\<open>Date.parse\<close> gives them. The table takes
  every other string for one that does not parse; the examples use \<^verbatim>\<open>soon\<close> for one that
  does not. The sample clock stands at 2024-03-10T12:00:00Z in a zone without offset.
\<close>

definition sample_Date_parse :: "string \<Rightarrow> int option" where
  "sample_Date_parse =
     map_of [(''2024-03-01T00:00:00Z'', 1709251200000),
             (''2024-03-03T00:00:00Z'', 1709424000000),
             (''2024-03-04T00:00:00Z'', 1709510400000),
             (''2024-03-05T00:00:00Z'', 1709596800000),
             (''2024-03-09T23:30:00Z'', 1710027000000),
             (''2024-03-10T01:00:00Z'', 1710032400000)]"

definition sample_env :: env where
  "sample_env = \<lparr>Date_parse = sample_Date_parse, now = 1710072000000, LocalTZA = (\<lambda>t. 0)\<rparr>"

text \<open>
  What \<^verbatim>\<open>JSON.parse\<close> makes of a few texts. The table takes every other text for one that
  is not JSON; the examples use \<^verbatim>\<open>{oops\<close> for one that is not.
\<close>

definition sample_JSON_parse :: "string \<Rightarrow> js_error + json" where
  "sample_JSON_parse text =
     (case map_of [(''[]'', JArr []),
                   (''[7]'', JArr [JPrim (JNum 7)]),
                   (''{}'', JObj []),
                   (''7'', JPrim (JNum 7)),
                   (''true'', JPrim (JBool True)),
                   (''null'', JPrim JNull)] text of
        None \<Rightarrow> Inl SyntaxError
      | Some v \<Rightarrow> Inr v)"




text \<open>Two articles whose order by \<^verbatim>\<open>published_at\<close> is the reverse of their order by
  \<^verbatim>\<open>processed_at\<close>.\<close>

definition early_pub :: article where
  "early_pub =
     blank\<lparr>published_at := Some ''2024-03-01T00:00:00Z'',
           processed_at := Some ''2024-03-05T00:00:00Z''\<rparr>"

definition late_pub :: article where
  "late_pub =
     blank\<lparr>published_at := Some ''2024-03-03T00:00:00Z'',
           processed_at := Some ''2024-03-04T00:00:00Z''\<rparr>"

text \<open>An article of the sample day, one of the evening before (twelve and a half hours
  before the sample clock), and one whose date does not parse.\<close>

definition morning :: article where
  "morning = blank\<lparr>published_at := Some ''2024-03-10T01:00:00Z''\<rparr>"

definition last_night :: article where
  "last_night = blank\<lparr>processed_at := Some ''2024-03-09T23:30:00Z''\<rparr>"

definition undated :: article where
  "undated = blank\<lparr>published_at := Some ''soon''\<rparr>"

text \<open>An article without summary, one with a rating and one without, one with two labels,
  and one of a YouTube source with the number 42 for \<^verbatim>\<open>source_id\<close>.\<close>

definition no_summary :: article where
  "no_summary = blank\<lparr>title := Some ''Weekly notes'', source_name := Some ''Blog''\<rparr>"

definition rated9 :: article where
  "rated9 = blank\<lparr>title := Some ''B'', rating := Some 9\<rparr>"

definition unrated :: article where
  "unrated = blank\<lparr>title := Some ''A''\<rparr>"

definition rated5 :: article where
  "rated5 = blank\<lparr>title := Some ''C'', rating := Some 5\<rparr>"

definition rated9_too :: article where
  "rated9_too = blank\<lparr>title := Some ''D'', rating := Some 9\<rparr>"

definition ai_tech :: article where
  "ai_tech = blank\<lparr>labels := Some [''AI'', ''Tech'']\<rparr>"

text \<open>An article that lists the label \<^verbatim>\<open>AI\<close> twice.\<close>

definition ai_twice :: article where
  "ai_twice = blank\<lparr>labels := Some [''AI'', ''AI'', ''Tech'']\<rparr>"


section \<open>Lemmas\<close>

lemma truthy_Some [simp]: "truthy (Some s) = (s \<noteq> [])"
  by (simp add: truthy_def)

lemma truthy_None [simp]: "\<not> truthy None"
  by (simp add: truthy_def)

subsection \<open>The filter, block by block\<close>

text \<open>
  The function passed to \<^verbatim>\<open>filter\<close> keeps an article exactly when every block lets it
  pass; under each value of \<^verbatim>\<open>currentFilter\<close> all blocks but one, and the search, are
  idle.
\<close>

lemma keep_v3_blocks:
  "keep_v3 e st a =
     (time_filter e (currentFilter st) a \<and>
      type_filter [''rss'', ''youtube'', ''blog'', ''nitter''] (currentFilter st) a \<and>
      source_filter (currentFilter st) (currentSource st) a \<and>
      search_filter (searchQuery st) a)"
  by (simp add: keep_v3_def)

lemma keep_v4_blocks:
  "keep_v4 e st a =
     (time_filter e (currentFilter st) a \<and>
      type_filter [''rss'', ''youtube'', ''newsletter'', ''nitter''] (currentFilter st) a \<and>
      source_filter (currentFilter st) (currentSource st) a \<and>
      category_filter (currentFilter st) (currentCategory st) a \<and>
      search_filter (searchQuery st) a)"
  by (simp add: keep_v4_def)

lemma keep_v5_blocks:
  "keep_v5 e st a =
     (time_filter e (currentFilter st) a \<and>
      type_filter [''rss'', ''youtube'', ''blog'', ''nitter''] (currentFilter st) a \<and>
      source_filter (currentFilter st) (currentSource st) a \<and>
      category_filter (currentFilter st) (currentCategory st) a \<and>
      search_filter (searchQuery st) a)"
  by (simp add: keep_v5_def)

lemma keep_today:
  assumes "currentFilter st = ''today''"
  shows "keep_v3 e st a = (isToday e (itemDate a) \<and> search_filter (searchQuery st) a)"
    and "keep_v4 e st a = (isToday e (itemDate a) \<and> search_filter (searchQuery st) a)"
    and "keep_v5 e st a = (isToday e (itemDate a) \<and> search_filter (searchQuery st) a)"
  using assms
  by (simp_all add: keep_v3_blocks keep_v4_blocks keep_v5_blocks time_filter_def type_filter_def
      source_filter_def category_filter_def)

lemma keep_week:
  assumes "currentFilter st = ''week''"
  shows "keep_v3 e st a = (isThisWeek e (itemDate a) \<and> search_filter (searchQuery st) a)"
    and "keep_v4 e st a = (isThisWeek e (itemDate a) \<and> search_filter (searchQuery st) a)"
    and "keep_v5 e st a = (isThisWeek e (itemDate a) \<and> search_filter (searchQuery st) a)"
  using assms
  by (simp_all add: keep_v3_blocks keep_v4_blocks keep_v5_blocks time_filter_def type_filter_def
      source_filter_def category_filter_def)

lemma keep_all:
  assumes "currentFilter st = ''all''"
  shows "keep_v3 e st a = search_filter (searchQuery st) a"
    and "keep_v4 e st a = search_filter (searchQuery st) a"
    and "keep_v5 e st a = search_filter (searchQuery st) a"
  using assms
  by (simp_all add: keep_v3_blocks keep_v4_blocks keep_v5_blocks time_filter_def type_filter_def
      source_filter_def category_filter_def)


lemma keep_type:
  assumes "cf \<in> {''rss'', ''youtube'', ''nitter''}" and "currentFilter st = cf"
  shows "keep_v3 e st a = (itemType a = cf \<and> search_filter (searchQuery st) a)"
    and "keep_v4 e st a = (itemType a = cf \<and> search_filter (searchQuery st) a)"
    and "keep_v5 e st a = (itemType a = cf \<and> search_filter (searchQuery st) a)"
  using assms
  by (auto simp add: keep_v3_blocks keep_v4_blocks keep_v5_blocks time_filter_def type_filter_def
      source_filter_def category_filter_def)

lemma keep_blog:
  assumes "currentFilter st = ''blog''"
  shows "keep_v3 e st a = (itemType a = ''blog'' \<and> search_filter (searchQuery st) a)"
    and "keep_v5 e st a = (itemType a = ''blog'' \<and> search_filter (searchQuery st) a)"
  using assms
  by (simp_all add: keep_v3_blocks keep_v5_blocks time_filter_def type_filter_def
      source_filter_def category_filter_def)

lemma keep_newsletter:
  assumes "currentFilter st = ''newsletter''"
  shows "keep_v4 e st a = (itemType a = ''newsletter'' \<and> search_filter (searchQuery st) a)"
  using assms
  by (simp_all add: keep_v4_blocks time_filter_def type_filter_def
      source_filter_def category_filter_def)

lemma keep_category:
  assumes "currentFilter st = ''category''" and "currentCategory st = Some c" and "c \<noteq> []"
  shows "keep_v4 e st a = (c \<in> set (labels_or_empty a) \<and> search_filter (searchQuery st) a)"
    and "keep_v5 e st a = (c \<in> set (labels_or_empty a) \<and> search_filter (searchQuery st) a)"
  using assms
  by (simp_all add: keep_v4_blocks keep_v5_blocks time_filter_def type_filter_def
      source_filter_def category_filter_def template_def)

subsection \<open>The effective date\<close>

lemma isToday_falsy: "\<not> truthy d \<Longrightarrow> \<not> isToday e d"
  by (cases d) (simp_all add: isToday_def)

lemma isThisWeek_falsy: "\<not> truthy d \<Longrightarrow> \<not> isThisWeek e d"
  by (cases d) (simp_all add: isThisWeek_def)

lemma itemDate_effective: "truthy (itemDate a) \<Longrightarrow> itemDate a = effective_date a"
  by (auto simp: itemDate_def effective_date_def or_else_def)

lemma effective_falsy: "\<not> truthy (itemDate a) \<Longrightarrow> effective_date a = None"
  by (auto simp: itemDate_def effective_date_def or_else_def split: if_splits)

lemma effective_truthy: "effective_date a = Some s \<Longrightarrow> s \<noteq> []"
  by (auto simp: effective_date_def split: if_splits)

lemma isToday_effective: "isToday e (itemDate a) = isToday e (effective_date a)"
proof (cases "truthy (itemDate a)")
  case True
  then show ?thesis using itemDate_effective [of a] by simp
next
  case False
  then show ?thesis by (simp only: effective_falsy isToday_falsy truthy_None not_False_eq_True)
qed

lemma isThisWeek_effective: "isThisWeek e (itemDate a) = isThisWeek e (effective_date a)"
proof (cases "truthy (itemDate a)")
  case True
  then show ?thesis using itemDate_effective [of a] by simp
next
  case False
  then show ?thesis
    by (simp only: effective_falsy isThisWeek_falsy truthy_None not_False_eq_True)
qed

lemma sortDate_effective: "sortDate e a = date_rank e (effective_date a)"
  by (cases "published_at a"; cases "processed_at a")
     (simp_all add: sortDate_def date_rank_def effective_date_def or_else_def template_def Let_def)

lemma sortDate_v1_fallback:
  "\<not> truthy (processed_at a) \<Longrightarrow> truthy (published_at a) \<Longrightarrow>
   sortDate_v1 e a = date_rank e (effective_date a)"
  by (cases "published_at a")
     (simp_all add: sortDate_v1_def date_rank_def effective_date_def or_else_def)

lemma sortDate_v1_processed:
  "truthy (processed_at a) \<Longrightarrow> sortDate_v1 e a = Date_parse e (template (processed_at a))"
  by (cases "processed_at a") (simp_all add: sortDate_v1_def or_else_def template_def)

subsection \<open>The sort\<close>

lemma set_insert_sorted: "set (insert_sorted cmp x ys) = insert x (set ys)"
  by (induction ys) auto

lemma set_Array_sort: "set (Array_sort cmp xs) = set xs"
  by (induction xs) (simp_all add: Array_sort_def set_insert_sorted)

lemma insert_sorted_cong:
  "(\<And>y. y \<in> set ys \<Longrightarrow> cmp1 x y = cmp2 x y) \<Longrightarrow>
   insert_sorted cmp1 x ys = insert_sorted cmp2 x ys"
  by (induction ys) (simp_all add: SortCompare_def)

text \<open>The sort asks the comparator about elements of the array only.\<close>

lemma Array_sort_cong:
  "(\<And>x y. x \<in> set xs \<Longrightarrow> y \<in> set xs \<Longrightarrow> cmp1 x y = cmp2 x y) \<Longrightarrow>
   Array_sort cmp1 xs = Array_sort cmp2 xs"
proof (induction xs)
  case Nil
  then show ?case by (simp add: Array_sort_def)
next
  case (Cons x xs)
  have tl: "Array_sort cmp1 xs = Array_sort cmp2 xs"
    using Cons by simp
  have "insert_sorted cmp1 x (Array_sort cmp2 xs) = insert_sorted cmp2 x (Array_sort cmp2 xs)"
    by (rule insert_sorted_cong) (simp add: set_Array_sort Cons.prems)
  with tl show ?case by (simp add: Array_sort_def)
qed

lemma rating_or_0_spec: "rating_or_0 a = spec_rating a"
  by (simp add: rating_or_0_def spec_rating_def split: option.splits)

text \<open>
  With the comparator of the ratings, inserting is the library's insertion by the key
  \<open>- rating\<close>, so that the sort by rating is the library's stable sort by that key.
\<close>

lemma insert_sorted_rating:
  "insert_sorted (sort_cmp e ''rating'') x ys = insort_key (\<lambda>a. - spec_rating a) x ys"
  by (induction ys) (simp_all add: SortCompare_def sort_cmp_def rating_or_0_spec)

lemma sortItems_rating: "sortItems e ''rating'' xs = sort_key (\<lambda>a. - spec_rating a) xs"
  by (induction xs) (simp_all add: sortItems_def Array_sort_def insert_sorted_rating)

lemma sortItems_rating_descending:
  "sorted_wrt (\<lambda>a b. spec_rating b \<le> spec_rating a) (sortItems e ''rating'' xs)"
proof -
  have "sorted (map (\<lambda>a. - spec_rating a) (sort_key (\<lambda>a. - spec_rating a) xs))"
    by (rule sorted_sort_key)
  then show ?thesis
    by (simp add: sortItems_rating sorted_map)
qed

lemma sortItems_rating_stable:
  "filter (\<lambda>a. spec_rating a = k) (sortItems e ''rating'' xs) =
   filter (\<lambda>a. spec_rating a = k) xs"
  using sort_key_stable [of "\<lambda>a. - spec_rating a" "- k" xs]
  by (simp add: sortItems_rating)

lemma sortItems_v1_rated:
  assumes "\<And>a. a \<in> set xs \<Longrightarrow> rating a \<noteq> None"
  shows "sortItems_v1 e ''rating'' xs = sortItems e ''rating'' xs"
  unfolding sortItems_v1_def sortItems_def
proof (rule Array_sort_cong)
  fix x y assume "x \<in> set xs" "y \<in> set xs"
  then obtain rx ry where "rating x = Some rx" "rating y = Some ry"
    using assms by fastforce
  then show "sort_cmp_v1 e ''rating'' x y = sort_cmp e ''rating'' x y"
    by (simp add: sort_cmp_v1_def sort_cmp_def minus_num_def rating_or_0_def)
qed

subsection \<open>The category index\<close>

lemma category_count_label:
  "category_count (count_label_v5 icons tag cats l) l' =
     category_count cats l' + (if l = l' \<and> l \<notin> set Object_prototype_members then 1 else 0)"
  by (simp add: category_count_def count_label_v5_def split: option.splits)

lemma category_count_labels:
  "category_count (foldl (count_label_v5 icons tag) cats ls) l' =
     category_count cats l' +
     (if l' \<in> set Object_prototype_members then 0 else count_list ls l')"
  by (induction ls arbitrary: cats) (auto simp: category_count_label)

lemma category_count_items:
  "category_count
     (foldl (\<lambda>cats item. foldl (count_label_v5 icons tag) cats (labels_or_empty item)) cats xs) l =
   category_count cats l +
   (if l \<in> set Object_prototype_members then 0
    else (\<Sum>a\<leftarrow>xs. count_list (labels_or_empty a) l))"
  by (induction xs arbitrary: cats) (simp_all add: category_count_labels)

text \<open>
  The count under a label is the number of times the articles list the label, and
  nothing under the name of a member of \<^verbatim>\<open>Object.prototype\<close>.
\<close>

lemma category_count_index:
  "category_count (buildCategoryIndex_v5 icons tag xs) l =
     (if l \<in> set Object_prototype_members then 0
      else (\<Sum>a\<leftarrow>xs. count_list (labels_or_empty a) l))"
proof -
  have "category_count Map.empty l = 0"
    by (simp add: category_count_def)
  then show ?thesis
    by (simp add: buildCategoryIndex_v5_def category_count_items)
qed

lemma AI_Tech_own:
  "''AI'' \<notin> set Object_prototype_members" "''Tech'' \<notin> set Object_prototype_members"
  by (simp_all add: Object_prototype_members_def)

lemma count_list_distinct: "distinct ls \<Longrightarrow> l \<in> set ls \<Longrightarrow> count_list ls l = 1"
  by (induction ls) (auto simp: count_list_0_iff)

lemma count_list_listed: "l \<in> set ls \<Longrightarrow> 0 < count_list ls l"
  by (induction ls) auto

subsection \<open>The set of read items\<close>







section \<open>The claims\<close>

text \<open>
  C1, as amended. In v2, v3, v4 and v5 the date of an article is its effective date:
  \<^verbatim>\<open>published_at\<close> when present, otherwise \<^verbatim>\<open>processed_at\<close> when present. The sort by
  date compares the time values of the effective dates, an unknown date ranking as the
  epoch, and the filters \<^verbatim>\<open>today\<close> and \<^verbatim>\<open>week\<close> test the effective date. In v1 the sort
  by date takes \<^verbatim>\<open>processed_at\<close> when present, and \<^verbatim>\<open>published_at\<close> only when
  \<^verbatim>\<open>processed_at\<close> is not.
\<close>

theorem C1_effective_date:
  "sortDate e a = date_rank e (effective_date a) \<and>
   (sort_by \<noteq> ''rating'' \<longrightarrow>
      sort_cmp e sort_by a b =
        minus_num (date_rank e (effective_date b)) (date_rank e (effective_date a))) \<and>
   time_filter e ''today'' a = isToday e (effective_date a) \<and>
   time_filter e ''week'' a = isThisWeek e (effective_date a) \<and>
   (truthy (processed_at a) \<longrightarrow>
      sortDate_v1 e a = Date_parse e (template (processed_at a))) \<and>
   (\<not> truthy (processed_at a) \<and> truthy (published_at a) \<longrightarrow>
      sortDate_v1 e a = date_rank e (effective_date a))"
proof -
  have cmp: "sort_cmp e sort_by a b =
               minus_num (date_rank e (effective_date b)) (date_rank e (effective_date a))"
    if "sort_by \<noteq> ''rating''"
    using that by (simp add: sort_cmp_def sortDate_effective)
  have today: "time_filter e ''today'' a = isToday e (effective_date a)"
    by (simp add: time_filter_def isToday_effective)
  have week: "time_filter e ''week'' a = isThisWeek e (effective_date a)"
    by (simp add: time_filter_def isThisWeek_effective)
  from cmp today week show ?thesis
    using sortDate_effective [of e a] sortDate_v1_processed [of a e]
      sortDate_v1_fallback [of a e]
    by blast
qed

text \<open>
  The article published on 1 March and processed on 5 March, against the one published
  on 3 March: in the later variants the comparator goes by the dates of publication.
\<close>

theorem C1_effective_date_witness:
  "''date'' \<noteq> ''rating'' \<and> truthy (processed_at early_pub) \<and>
   sortDate sample_env early_pub = Some 1709251200000 \<and>
   sort_cmp sample_env ''date'' early_pub late_pub = Some (1709424000000 - 1709251200000) \<and>
   sortDate_v1 sample_env early_pub = Some 1709596800000"
proof -
  have eff: "effective_date early_pub = Some ''2024-03-01T00:00:00Z''"
            "effective_date late_pub = Some ''2024-03-03T00:00:00Z''"
    by (simp_all add: effective_date_def early_pub_def late_pub_def blank_def)
  have proc: "processed_at early_pub = Some ''2024-03-05T00:00:00Z''"
    by (simp add: early_pub_def blank_def)
  have parse: "Date_parse sample_env ''2024-03-01T00:00:00Z'' = Some 1709251200000"
              "Date_parse sample_env ''2024-03-03T00:00:00Z'' = Some 1709424000000"
              "Date_parse sample_env ''2024-03-05T00:00:00Z'' = Some 1709596800000"
    by (simp_all add: sample_env_def sample_Date_parse_def)
  show ?thesis
    using C1_effective_date [of sample_env early_pub "''date''" late_pub]
    by (simp add: eff proc parse date_rank_def minus_num_def template_def)
qed

text \<open>
  In v1 the same article has the date of its processing, not its effective date, and
  the sort by date moves it before the article that was published later.
\<close>

theorem C1_counterexample:
  "sortDate_v1 sample_env early_pub \<noteq> date_rank sample_env (effective_date early_pub) \<and>
   sortItems_v1 sample_env ''date'' [late_pub, early_pub] = [early_pub, late_pub] \<and>
   sortItems sample_env ''date'' [late_pub, early_pub] = [late_pub, early_pub]"
proof -
  have v1: "sortDate_v1 sample_env early_pub = Some 1709596800000"
           "sortDate_v1 sample_env late_pub = Some 1709510400000"
    by (simp_all add: sortDate_v1_def or_else_def early_pub_def late_pub_def blank_def
        sample_env_def sample_Date_parse_def)
  have v2: "sortDate sample_env early_pub = Some 1709251200000"
           "sortDate sample_env late_pub = Some 1709424000000"
    by (simp_all add: sortDate_def or_else_def template_def early_pub_def late_pub_def
        blank_def sample_env_def sample_Date_parse_def)
  have "date_rank sample_env (effective_date early_pub) = Some 1709251200000"
    using v2 by (simp add: sortDate_effective)
  moreover have "sortItems_v1 sample_env ''date'' [late_pub, early_pub] = [early_pub, late_pub]"
    by (simp add: sortItems_v1_def Array_sort_def SortCompare_def sort_cmp_v1_def v1
        minus_num_def)
  moreover have "sortItems sample_env ''date'' [late_pub, early_pub] = [late_pub, early_pub]"
    by (simp add: sortItems_def Array_sort_def SortCompare_def sort_cmp_def v2 minus_num_def)
  ultimately show ?thesis
    by (simp add: v1)
qed

text \<open>
  C2: the search of v2 to v5 at an article that has no summary. The template literal
  writes \<^verbatim>\<open>undefined\<close> for the absent field, so the query \<^verbatim>\<open>undefined\<close> finds the
  article, although neither its title nor the name of its source contains the query.
\<close>

theorem C2_absent_summary_found:
  "summary no_summary = None \<and>
   searchIn no_summary = ''weekly notes undefined blog'' \<and>
   search_filter ''undefined'' no_summary \<and>
   keep_v2 (initial_feed\<lparr>currentFilter := ''all'', searchQuery := ''undefined''\<rparr>) no_summary \<and>
   keep_v5 sample_env (initial_feed\<lparr>currentFilter := ''all'', searchQuery := ''undefined''\<rparr>)
     no_summary \<and>
   \<not> String_includes (toLowerCase (''Weekly notes'' @ [] @ ''Blog'')) ''undefined'' \<and>
   \<not> String_includes (toLowerCase (''Weekly notes'' @ '' '' @ [] @ '' '' @ ''Blog''))
        ''undefined''"
proof -
  have hay: "searchIn no_summary = ''weekly notes undefined blog''"
    by (simp add: searchIn_def template_def or_else_def no_summary_def blank_def
        toLowerCase_def toLowerCase_char_def)
  have found: "String_includes ''weekly notes undefined blog'' ''undefined''"
    by simp
  have st: "currentFilter (initial_feed\<lparr>currentFilter := ''all'', searchQuery := ''undefined''\<rparr>)
              = ''all''"
           "searchQuery (initial_feed\<lparr>currentFilter := ''all'', searchQuery := ''undefined''\<rparr>)
              = ''undefined''"
    by (simp_all add: initial_feed_def)
  have v2: "keep_v2 (initial_feed\<lparr>currentFilter := ''all'', searchQuery := ''undefined''\<rparr>)
              no_summary"
    using found by (simp add: keep_v2_def st hay)
  have v5: "keep_v5 sample_env
              (initial_feed\<lparr>currentFilter := ''all'', searchQuery := ''undefined''\<rparr>) no_summary"
    using found by (simp add: keep_all st search_filter_def hay)
  have none: "\<not> String_includes (toLowerCase (''Weekly notes'' @ [] @ ''Blog'')) ''undefined''"
             "\<not> String_includes (toLowerCase (''Weekly notes'' @ '' '' @ [] @ '' '' @ ''Blog''))
                  ''undefined''"
    by (simp_all add: toLowerCase_def toLowerCase_char_def)
  from hay found v2 v5 none show ?thesis
    by (simp add: search_filter_def) (simp add: no_summary_def blank_def)
qed

text \<open>
  C3, as amended. In v5, when the key \<^verbatim>\<open>readItems\<close> has no value or the empty one, or its
  value is the JSON text of \<^verbatim>\<open>null\<close>, the constructor makes the empty set without
  throwing, and no article is read; when the value is the JSON text of an array, the set
  holds the elements of the array. A malformed value is not tolerated: for a text that
  is not JSON the error of \<^verbatim>\<open>JSON.parse\<close>, a \<^verbatim>\<open>SyntaxError\<close>, leaves the constructor, and
  for JSON that is an object, a number or a boolean a \<^verbatim>\<open>TypeError\<close> does.
\<close>

theorem C3_constructor:
  "(\<not> truthy (storage ''readItems'') \<and> JSON_parse ''[]'' = Inr (JArr []) \<longrightarrow>
      constructor_v5 JSON_parse storage = Inr \<lparr>readItems = [], localStorage = storage\<rparr> \<and>
      \<not> isRead_v5 \<lparr>readItems = [], localStorage = storage\<rparr> itemId) \<and>
   (storage ''readItems'' = Some payload \<and> payload \<noteq> [] \<and>
    JSON_parse payload = Inr (JPrim JNull) \<longrightarrow>
      constructor_v5 JSON_parse storage = Inr \<lparr>readItems = [], localStorage = storage\<rparr> \<and>
      \<not> isRead_v5 \<lparr>readItems = [], localStorage = storage\<rparr> itemId) \<and>
   (storage ''readItems'' = Some payload \<and> payload \<noteq> [] \<and>
    JSON_parse payload = Inr (JArr ids) \<longrightarrow>
      constructor_v5 JSON_parse storage =
        Inr \<lparr>readItems = foldl Set_add_json [] ids, localStorage = storage\<rparr>) \<and>
   (storage ''readItems'' = Some payload \<and> payload \<noteq> [] \<and>
    JSON_parse payload = Inl err \<longrightarrow>
      constructor_v5 JSON_parse storage = Inl err) \<and>
   (storage ''readItems'' = Some payload \<and> payload \<noteq> [] \<and>
    (JSON_parse payload = Inr (JObj kvs) \<or> JSON_parse payload = Inr (JPrim (JNum n)) \<or>
     JSON_parse payload = Inr (JPrim (JBool b))) \<longrightarrow>
      constructor_v5 JSON_parse storage = Inl TypeError)"
proof -
  have absent: "template (or_else (storage ''readItems'') (Some ''[]'')) = ''[]''"
    if "\<not> truthy (storage ''readItems'')"
    using that by (simp add: or_else_def template_def)
  have present: "template (or_else (Some payload) (Some ''[]'')) = payload"
    if "payload \<noteq> []"
    using that by (simp add: or_else_def template_def)
  have unread: "\<not> isRead_v5 \<lparr>readItems = [], localStorage = storage\<rparr> itemId"
    by (simp add: isRead_v5_def Set_has_def)
  have none: "constructor_v5 JSON_parse storage =
                Inr \<lparr>readItems = [], localStorage = storage\<rparr>"
    if "\<not> truthy (storage ''readItems'')" "JSON_parse ''[]'' = Inr (JArr [])"
    using that by (simp add: constructor_v5_def absent)
  have null: "constructor_v5 JSON_parse storage = Inr \<lparr>readItems = [], localStorage = storage\<rparr>"
    if "storage ''readItems'' = Some payload" "payload \<noteq> []"
       "JSON_parse payload = Inr (JPrim JNull)"
    using that by (simp add: constructor_v5_def present)
  have array: "constructor_v5 JSON_parse storage =
                 Inr \<lparr>readItems = foldl Set_add_json [] ids, localStorage = storage\<rparr>"
    if "storage ''readItems'' = Some payload" "payload \<noteq> []"
       "JSON_parse payload = Inr (JArr ids)"
    using that by (simp add: constructor_v5_def present)
  have rejected: "constructor_v5 JSON_parse storage = Inl err"
    if "storage ''readItems'' = Some payload" "payload \<noteq> []" "JSON_parse payload = Inl err"
    using that by (simp add: constructor_v5_def present)
  have not_iterable: "constructor_v5 JSON_parse storage = Inl TypeError"
    if "storage ''readItems'' = Some payload" "payload \<noteq> []"
       "JSON_parse payload = Inr (JObj kvs) \<or> JSON_parse payload = Inr (JPrim (JNum n)) \<or>
        JSON_parse payload = Inr (JPrim (JBool b))"
    using that by (auto simp: constructor_v5_def present)
  from unread none null array rejected not_iterable show ?thesis
    by blast
qed

text \<open>
  A storage without the key; one that holds the array of the identifier 7; and the
  payloads \<^verbatim>\<open>{}\<close>, \<^verbatim>\<open>7\<close> and \<^verbatim>\<open>true\<close>, each JSON and none an array.
\<close>

theorem C3_constructor_witness:
  "\<not> truthy (Map.empty ''readItems'') \<and>
   sample_JSON_parse ''[]'' = Inr (JArr []) \<and>
   constructor_v5 sample_JSON_parse Map.empty = Inr \<lparr>readItems = [], localStorage = Map.empty\<rparr> \<and>
   sample_JSON_parse ''[7]'' = Inr (JArr [JPrim (JNum 7)]) \<and>
   constructor_v5 sample_JSON_parse (Map.empty(''readItems'' \<mapsto> ''[7]'')) =
     Inr \<lparr>readItems = [JPrim (JNum 7)], localStorage = Map.empty(''readItems'' \<mapsto> ''[7]'')\<rparr> \<and>
   sample_JSON_parse ''{}'' = Inr (JObj []) \<and>
   constructor_v5 sample_JSON_parse (Map.empty(''readItems'' \<mapsto> ''{}'')) = Inl TypeError \<and>
   sample_JSON_parse ''7'' = Inr (JPrim (JNum 7)) \<and>
   constructor_v5 sample_JSON_parse (Map.empty(''readItems'' \<mapsto> ''7'')) = Inl TypeError \<and>
   sample_JSON_parse ''true'' = Inr (JPrim (JBool True)) \<and>
   constructor_v5 sample_JSON_parse (Map.empty(''readItems'' \<mapsto> ''true'')) = Inl TypeError"
proof -
  have parse: "sample_JSON_parse ''[]'' = Inr (JArr [])"
              "sample_JSON_parse ''[7]'' = Inr (JArr [JPrim (JNum 7)])"
              "sample_JSON_parse ''{}'' = Inr (JObj [])"
              "sample_JSON_parse ''7'' = Inr (JPrim (JNum 7))"
              "sample_JSON_parse ''true'' = Inr (JPrim (JBool True))"
    by (simp_all add: sample_JSON_parse_def)
  show ?thesis
    using C3_constructor [where storage = Map.empty and JSON_parse = sample_JSON_parse]
      C3_constructor [where storage = "Map.empty(''readItems'' \<mapsto> ''[7]'')"
        and payload = "''[7]''" and JSON_parse = sample_JSON_parse
        and ids = "[JPrim (JNum 7)]"]
      C3_constructor [where storage = "Map.empty(''readItems'' \<mapsto> ''{}'')"
        and payload = "''{}''" and JSON_parse = sample_JSON_parse and kvs = "[]"]
      C3_constructor [where storage = "Map.empty(''readItems'' \<mapsto> ''7'')"
        and payload = "''7''" and JSON_parse = sample_JSON_parse and n = 7]
      C3_constructor [where storage = "Map.empty(''readItems'' \<mapsto> ''true'')"
        and payload = "''true''" and JSON_parse = sample_JSON_parse and b = True]
    by (simp add: parse Set_add_json_def)
qed

text \<open>
  A payload that is not JSON makes the constructor throw a \<^verbatim>\<open>SyntaxError\<close>; the
  payloads \<^verbatim>\<open>{}\<close>, \<^verbatim>\<open>7\<close> and \<^verbatim>\<open>true\<close>, which are JSON and not arrays, a \<^verbatim>\<open>TypeError\<close>.
\<close>

theorem C3_counterexample:
  "constructor_v5 sample_JSON_parse (Map.empty(''readItems'' \<mapsto> ''{oops'')) = Inl SyntaxError \<and>
   constructor_v5 sample_JSON_parse (Map.empty(''readItems'' \<mapsto> ''{}'')) = Inl TypeError \<and>
   constructor_v5 sample_JSON_parse (Map.empty(''readItems'' \<mapsto> ''7'')) = Inl TypeError \<and>
   constructor_v5 sample_JSON_parse (Map.empty(''readItems'' \<mapsto> ''true'')) = Inl TypeError"
  by (simp add: constructor_v5_def sample_JSON_parse_def or_else_def truthy_def template_def)

text \<open>
  C4, as amended. In v2, v3, v4 and v5 the sort by rating orders every list by descending
  rating, an absent rating counting as 0; it returns the same articles; and the articles
  of each rating keep the order they had before the sort. In v1 the comparator is
  \<^verbatim>\<open>b.rating - a.rating\<close> without default, and the sort is the same one when every
  article of the list has a rating.
\<close>

theorem C4_rating_sort:
  "sorted_wrt (\<lambda>a b. spec_rating b \<le> spec_rating a) (sortItems e ''rating'' xs) \<and>
   mset (sortItems e ''rating'' xs) = mset xs \<and>
   (\<forall>k. filter (\<lambda>a. spec_rating a = k) (sortItems e ''rating'' xs) =
        filter (\<lambda>a. spec_rating a = k) xs) \<and>
   ((\<forall>a \<in> set xs. rating a \<noteq> None) \<longrightarrow>
      sortItems_v1 e ''rating'' xs = sortItems e ''rating'' xs)"
proof -
  have "mset (sortItems e ''rating'' xs) = mset xs"
    by (simp add: sortItems_rating)
  then show ?thesis
    using sortItems_rating_descending [of e xs] sortItems_rating_stable [of _ e xs]
      sortItems_v1_rated [of xs e]
    by blast
qed

text \<open>Three rated articles, two of them with the rating 9: v1 and the later variants put
  the two first, in the order they had.\<close>

theorem C4_rating_sort_witness:
  "rating rated5 \<noteq> None \<and> rating rated9 \<noteq> None \<and> rating rated9_too \<noteq> None \<and>
   sortItems_v1 sample_env ''rating'' [rated5, rated9, rated9_too] = [rated9, rated9_too, rated5] \<and>
   sortItems sample_env ''rating'' [rated5, rated9, rated9_too] = [rated9, rated9_too, rated5]"
proof -
  have rated: "\<forall>a \<in> set [rated5, rated9, rated9_too]. rating a \<noteq> None"
    by (simp add: rated5_def rated9_def rated9_too_def blank_def)
  have sorted: "sortItems sample_env ''rating'' [rated5, rated9, rated9_too]
                  = [rated9, rated9_too, rated5]"
    by (simp add: sortItems_def Array_sort_def SortCompare_def sort_cmp_def rating_or_0_def
        rated5_def rated9_def rated9_too_def blank_def)
  from rated sorted show ?thesis
    using C4_rating_sort [of sample_env "[rated5, rated9, rated9_too]"] by simp
qed

text \<open>
  In v1 an article without rating makes the comparator return \<^verbatim>\<open>NaN\<close>, which the sort
  takes for a tie: the unrated article stays before the one rated 9.
\<close>

theorem C4_counterexample:
  "sortItems_v1 sample_env ''rating'' [unrated, rated9] = [unrated, rated9] \<and>
   spec_rating unrated < spec_rating rated9"
  by (simp add: sortItems_v1_def Array_sort_def SortCompare_def sort_cmp_v1_def minus_num_def
      spec_rating_def unrated_def rated9_def blank_def)

text \<open>
  C5. In v3, v4 and v5, under the filter \<^verbatim>\<open>today\<close> an article passes the block of the
  time filters exactly when its effective date parses and falls on the local calendar
  day of the clock; under \<^verbatim>\<open>week\<close>, exactly when it parses and is not earlier than
  7 \<times> 24 hours before the clock. An article whose effective date is unknown or does not
  parse fails both. Under either filter the search is the only other block at work.
\<close>

theorem C5_today_week:
  "(isToday e (itemDate a) \<longleftrightarrow>
      (\<exists>s t. effective_date a = Some s \<and> Date_parse e s = Some t \<and>
             Day (LocalTime e t) = Day (LocalTime e (now e)))) \<and>
   (isThisWeek e (itemDate a) \<longleftrightarrow>
      (\<exists>s t. effective_date a = Some s \<and> Date_parse e s = Some t \<and>
             now e - 7 * 24 * 60 * 60 * 1000 \<le> t)) \<and>
   (effective_date a = None \<or> (\<exists>s. effective_date a = Some s \<and> Date_parse e s = None)
      \<longrightarrow> \<not> isToday e (itemDate a) \<and> \<not> isThisWeek e (itemDate a)) \<and>
   (currentFilter st = ''today'' \<longrightarrow>
      keep_v3 e st a = (isToday e (itemDate a) \<and> search_filter (searchQuery st) a) \<and>
      keep_v4 e st a = (isToday e (itemDate a) \<and> search_filter (searchQuery st) a) \<and>
      keep_v5 e st a = (isToday e (itemDate a) \<and> search_filter (searchQuery st) a)) \<and>
   (currentFilter st = ''week'' \<longrightarrow>
      keep_v3 e st a = (isThisWeek e (itemDate a) \<and> search_filter (searchQuery st) a) \<and>
      keep_v4 e st a = (isThisWeek e (itemDate a) \<and> search_filter (searchQuery st) a) \<and>
      keep_v5 e st a = (isThisWeek e (itemDate a) \<and> search_filter (searchQuery st) a))"
proof -
  have today: "isToday e (effective_date a) \<longleftrightarrow>
      (\<exists>s t. effective_date a = Some s \<and> Date_parse e s = Some t \<and>
             Day (LocalTime e t) = Day (LocalTime e (now e)))"
  proof (cases "effective_date a")
    case None
    then show ?thesis by (simp add: isToday_def)
  next
    case (Some s)
    then have "s \<noteq> []" by (rule effective_truthy)
    with Some show ?thesis
      by (cases "Date_parse e s") (simp_all add: isToday_def toDateString_def)
  qed
  have week: "isThisWeek e (effective_date a) \<longleftrightarrow>
      (\<exists>s t. effective_date a = Some s \<and> Date_parse e s = Some t \<and>
             now e - 7 * 24 * 60 * 60 * 1000 \<le> t)"
  proof (cases "effective_date a")
    case None
    then show ?thesis by (simp add: isThisWeek_def)
  next
    case (Some s)
    then have "s \<noteq> []" by (rule effective_truthy)
    with Some show ?thesis
      by (cases "Date_parse e s") (simp_all add: isThisWeek_def)
  qed
  have fails: "\<not> isToday e (itemDate a) \<and> \<not> isThisWeek e (itemDate a)"
    if "effective_date a = None \<or> (\<exists>s. effective_date a = Some s \<and> Date_parse e s = None)"
    using that today week by (auto simp: isToday_effective isThisWeek_effective)
  show ?thesis
    using today week fails keep_today [of st e a] keep_week [of st e a]
    by (simp only: isToday_effective isThisWeek_effective) blast
qed

text \<open>
  On the sample day, at noon: the article of one o'clock that morning passes \<^verbatim>\<open>today\<close>;
  the article of half past eleven the evening before, twelve and a half hours old, fails
  \<^verbatim>\<open>today\<close> and passes \<^verbatim>\<open>week\<close>; the article whose date does not parse fails both.
\<close>

theorem C5_today_week_witness:
  "currentFilter initial_feed = ''today'' \<and>
   currentFilter (initial_feed\<lparr>currentFilter := ''week''\<rparr>) = ''week'' \<and>
   keep_v5 sample_env initial_feed morning \<and>
   \<not> keep_v5 sample_env initial_feed last_night \<and>
   keep_v5 sample_env (initial_feed\<lparr>currentFilter := ''week''\<rparr>) last_night \<and>
   \<not> keep_v5 sample_env initial_feed undated \<and>
   \<not> keep_v5 sample_env (initial_feed\<lparr>currentFilter := ''week''\<rparr>) undated"
proof -
  have eff: "effective_date morning = Some ''2024-03-10T01:00:00Z''"
            "effective_date last_night = Some ''2024-03-09T23:30:00Z''"
            "effective_date undated = Some ''soon''"
    by (simp_all add: effective_date_def morning_def last_night_def undated_def blank_def)
  have parse: "Date_parse sample_env ''2024-03-10T01:00:00Z'' = Some 1710032400000"
              "Date_parse sample_env ''2024-03-09T23:30:00Z'' = Some 1710027000000"
              "Date_parse sample_env ''soon'' = None"
    by (simp_all add: sample_env_def sample_Date_parse_def)
  have day: "Day (LocalTime sample_env 1710032400000) = 19792"
            "Day (LocalTime sample_env 1710027000000) = 19791"
            "Day (LocalTime sample_env 1710072000000) = 19792"
    by (simp_all add: Day_def LocalTime_def msPerDay_def sample_env_def)
  have clock: "now sample_env = 1710072000000"
    by (simp add: sample_env_def)
  have st: "currentFilter initial_feed = ''today''" "searchQuery initial_feed = []"
    by (simp_all add: initial_feed_def)
  have search: "search_filter [] a" for a
    by (simp add: search_filter_def)
  show ?thesis
    using C5_today_week [of sample_env morning initial_feed]
      C5_today_week [of sample_env last_night initial_feed]
      C5_today_week [of sample_env last_night "initial_feed\<lparr>currentFilter := ''week''\<rparr>"]
      C5_today_week [of sample_env undated initial_feed]
      C5_today_week [of sample_env undated "initial_feed\<lparr>currentFilter := ''week''\<rparr>"]
    by (simp add: eff parse day clock st search)
qed

text \<open>
  C6. In v3 and v5 (and v4), with the filter \<^verbatim>\<open>all\<close> and an empty search query the
  filter keeps every loaded article, in the order of the load; \<^verbatim>\<open>filteredItems\<close> is
  then the sort of that list.
\<close>

theorem C6_all_keeps_everything:
  assumes "currentFilter st = ''all''" and "searchQuery st = []"
  shows "filter (keep_v3 e st) (items st) = items st \<and>
         filter (keep_v4 e st) (items st) = items st \<and>
         filter (keep_v5 e st) (items st) = items st \<and>
         filteredItems (applyFilters_v3 e st) = sortItems e (sortBy st) (items st) \<and>
         filteredItems (applyFilters_v4 e st) = sortItems e (sortBy st) (items st) \<and>
         filteredItems (applyFilters_v5 e st) = sortItems e (sortBy st) (items st)"
proof -
  have "keep_v3 e st a" "keep_v4 e st a" "keep_v5 e st a" for a
    using assms by (simp_all add: keep_all search_filter_def)
  then show ?thesis
    by (simp add: applyFilters_v3_def applyFilters_v4_def applyFilters_v5_def)
qed

theorem C6_all_keeps_everything_witness:
  "currentFilter (initial_feed\<lparr>currentFilter := ''all'', items := [undated, last_night, morning]\<rparr>) = ''all'' \<and>
   searchQuery (initial_feed\<lparr>currentFilter := ''all'', items := [undated, last_night, morning]\<rparr>) = [] \<and>
   filter (keep_v5 sample_env
             (initial_feed\<lparr>currentFilter := ''all'', items := [undated, last_night, morning]\<rparr>))
     [undated, last_night, morning] = [undated, last_night, morning] \<and>
   filter (keep_v3 sample_env
             (initial_feed\<lparr>currentFilter := ''all'', items := [undated, last_night, morning]\<rparr>))
     [undated, last_night, morning] = [undated, last_night, morning]"
  using C6_all_keeps_everything
    [of "initial_feed\<lparr>currentFilter := ''all'', items := [undated, last_night, morning]\<rparr>"
        sample_env]
  by (simp add: initial_feed_def)




text \<open>
  C8, as amended. In v5, an article whose labels contain both \<^verbatim>\<open>AI\<close> and \<^verbatim>\<open>Tech\<close> passes
  the category filter under either category, and is in \<^verbatim>\<open>filteredItems\<close> exactly when it
  is loaded and passes the search (as it does when the query is empty). The category
  index counts listings, not articles: the article adds to the count of a label the
  number of times it lists the label. Under \<^verbatim>\<open>AI\<close> and under \<^verbatim>\<open>Tech\<close> that is at least
  one each, and exactly one each when the article lists no label twice. The same holds
  of every label but the names of the members of \<^verbatim>\<open>Object.prototype\<close>, under which the
  index counts nothing.
\<close>

theorem C8_category:
  assumes "labels a = Some ls" and "''AI'' \<in> set ls" and "''Tech'' \<in> set ls"
  shows "category_filter ''category'' (Some ''AI'') a \<and>
         category_filter ''category'' (Some ''Tech'') a \<and>
         (currentFilter st = ''category'' \<and>
          (currentCategory st = Some ''AI'' \<or> currentCategory st = Some ''Tech'') \<longrightarrow>
            (a \<in> set (filteredItems (applyFilters_v5 e st)) \<longleftrightarrow>
               a \<in> set (items st) \<and> search_filter (searchQuery st) a)) \<and>
         category_count (buildCategoryIndex_v5 icons tag (xs @ a # ys)) ''AI'' =
           category_count (buildCategoryIndex_v5 icons tag (xs @ ys)) ''AI'' +
           count_list ls ''AI'' \<and>
         category_count (buildCategoryIndex_v5 icons tag (xs @ a # ys)) ''Tech'' =
           category_count (buildCategoryIndex_v5 icons tag (xs @ ys)) ''Tech'' +
           count_list ls ''Tech'' \<and>
         0 < count_list ls ''AI'' \<and> 0 < count_list ls ''Tech'' \<and>
         (distinct ls \<longrightarrow>
            category_count (buildCategoryIndex_v5 icons tag (xs @ a # ys)) ''AI'' =
              category_count (buildCategoryIndex_v5 icons tag (xs @ ys)) ''AI'' + 1 \<and>
            category_count (buildCategoryIndex_v5 icons tag (xs @ a # ys)) ''Tech'' =
              category_count (buildCategoryIndex_v5 icons tag (xs @ ys)) ''Tech'' + 1) \<and>
         (\<forall>l. l \<notin> set Object_prototype_members \<longrightarrow>
              category_count (buildCategoryIndex_v5 icons tag (xs @ a # ys)) l =
                category_count (buildCategoryIndex_v5 icons tag (xs @ ys)) l + count_list ls l) \<and>
         (\<forall>l. l \<in> set Object_prototype_members \<longrightarrow>
              category_count (buildCategoryIndex_v5 icons tag (xs @ a # ys)) l = 0)"
proof -
  have ls: "labels_or_empty a = ls"
    using assms(1) by (simp add: labels_or_empty_def)
  have pass: "category_filter ''category'' (Some ''AI'') a"
             "category_filter ''category'' (Some ''Tech'') a"
    using assms(2,3) by (simp_all add: category_filter_def template_def ls)
  have shown: "a \<in> set (filteredItems (applyFilters_v5 e st)) \<longleftrightarrow>
                 a \<in> set (items st) \<and> search_filter (searchQuery st) a"
    if "currentFilter st = ''category''"
       and "currentCategory st = Some ''AI'' \<or> currentCategory st = Some ''Tech''"
  proof -
    from that(2) obtain c where c: "currentCategory st = Some c" "c \<noteq> []" "c \<in> set ls"
      using assms(2,3) by auto
    have "keep_v5 e st a = search_filter (searchQuery st) a"
      using keep_category(2) [OF that(1) c(1) c(2), of e a] c(3) by (simp add: ls)
    then show ?thesis
      by (simp add: applyFilters_v5_def sortItems_def set_Array_sort)
  qed
  have counts: "category_count (buildCategoryIndex_v5 icons tag (xs @ a # ys)) l =
              category_count (buildCategoryIndex_v5 icons tag (xs @ ys)) l + count_list ls l"
    if "l \<notin> set Object_prototype_members" for l
    using that by (simp add: category_count_index ls)
  have no_entry: "category_count (buildCategoryIndex_v5 icons tag (xs @ a # ys)) l = 0"
    if "l \<in> set Object_prototype_members" for l
    using that by (simp add: category_count_index)
  have listed: "0 < count_list ls ''AI''" "0 < count_list ls ''Tech''"
    using assms(2,3) by (simp_all add: count_list_listed)
  have once: "count_list ls ''AI'' = 1" "count_list ls ''Tech'' = 1" if "distinct ls"
    using that assms(2,3) by (simp_all add: count_list_distinct)
  have twice: "distinct ls \<longrightarrow>
            category_count (buildCategoryIndex_v5 icons tag (xs @ a # ys)) ''AI'' =
              category_count (buildCategoryIndex_v5 icons tag (xs @ ys)) ''AI'' + 1 \<and>
            category_count (buildCategoryIndex_v5 icons tag (xs @ a # ys)) ''Tech'' =
              category_count (buildCategoryIndex_v5 icons tag (xs @ ys)) ''Tech'' + 1"
    using once counts [OF AI_Tech_own(1)] counts [OF AI_Tech_own(2)] by simp
  have in_result: "currentFilter st = ''category'' \<and>
          (currentCategory st = Some ''AI'' \<or> currentCategory st = Some ''Tech'') \<longrightarrow>
            (a \<in> set (filteredItems (applyFilters_v5 e st)) \<longleftrightarrow>
               a \<in> set (items st) \<and> search_filter (searchQuery st) a)"
    using shown by blast
  have others: "\<forall>l. l \<notin> set Object_prototype_members \<longrightarrow>
              category_count (buildCategoryIndex_v5 icons tag (xs @ a # ys)) l =
                category_count (buildCategoryIndex_v5 icons tag (xs @ ys)) l + count_list ls l"
    using counts by blast
  have members: "\<forall>l. l \<in> set Object_prototype_members \<longrightarrow>
              category_count (buildCategoryIndex_v5 icons tag (xs @ a # ys)) l = 0"
    using no_entry by blast
  note ai = counts [OF AI_Tech_own(1)] and tech = counts [OF AI_Tech_own(2)]
  show ?thesis
    by (intro conjI pass in_result ai tech listed twice others members)
qed

text \<open>The article labelled \<^verbatim>\<open>AI\<close> and \<^verbatim>\<open>Tech\<close>, loaded alone: shown under \<^verbatim>\<open>Tech\<close>,
  counted once under \<^verbatim>\<open>AI\<close>, and nothing is counted under \<^verbatim>\<open>constructor\<close>.\<close>

theorem C8_category_witness:
  "labels ai_tech = Some [''AI'', ''Tech''] \<and> ''AI'' \<in> set [''AI'', ''Tech''] \<and>
   ''Tech'' \<in> set [''AI'', ''Tech''] \<and> distinct [''AI'', ''Tech''] \<and>
   ai_tech \<in> set (filteredItems (applyFilters_v5 sample_env
      (initial_feed\<lparr>items := [ai_tech], currentFilter := ''category'',
                     currentCategory := Some ''Tech''\<rparr>))) \<and>
   category_count (buildCategoryIndex_v5 Map.empty ''#'' [ai_tech]) ''AI'' = 1 \<and>
   ''constructor'' \<in> set Object_prototype_members \<and>
   category_count (buildCategoryIndex_v5 Map.empty ''#'' [ai_tech]) ''constructor'' = 0"
proof -
  let ?st = "initial_feed\<lparr>items := [ai_tech], currentFilter := ''category'',
                     currentCategory := Some ''Tech''\<rparr>"
  have lab: "labels ai_tech = Some [''AI'', ''Tech'']"
    by (simp add: ai_tech_def blank_def)
  have st: "currentFilter ?st = ''category''" "currentCategory ?st = Some ''Tech''"
           "items ?st = [ai_tech]" "searchQuery ?st = []"
    by (simp_all add: initial_feed_def)
  have empty: "category_count (buildCategoryIndex_v5 Map.empty ''#'' []) ''AI'' = 0"
    by (simp add: buildCategoryIndex_v5_def category_count_def)
  have member: "''constructor'' \<in> set Object_prototype_members"
    by (simp add: Object_prototype_members_def)
  show ?thesis
    using C8_category [OF lab, of ?st sample_env Map.empty "''#''" "[]" "[]"]
    by (simp add: lab st empty member search_filter_def)
qed

text \<open>
  The article that lists \<^verbatim>\<open>AI\<close> twice, loaded alone, is counted twice under \<^verbatim>\<open>AI\<close>.
\<close>

theorem C8_counterexample:
  "labels ai_twice = Some [''AI'', ''AI'', ''Tech''] \<and>
   category_count (buildCategoryIndex_v5 Map.empty ''#'' [ai_twice]) ''AI'' = 2"
proof -
  have lab: "labels_or_empty ai_twice = [''AI'', ''AI'', ''Tech'']"
    by (simp add: labels_or_empty_def ai_twice_def blank_def)
  show ?thesis
    by (simp add: category_count_index AI_Tech_own lab) (simp add: ai_twice_def blank_def)
qed

text \<open>
  C9, as amended. In v2 under every filter but \<^verbatim>\<open>all\<close>, and in v3, v4 and v5 under a
  filter that is one of the known source types, an article passes the type filter exactly
  when its \<^verbatim>\<open>source_type\<close>, with \<^verbatim>\<open>rss\<close> in place of an absent or empty one, is the
  filter; an article without \<^verbatim>\<open>source_type\<close> passes under \<^verbatim>\<open>rss\<close>. In v1 there is no
  default: under every filter but \<^verbatim>\<open>all\<close> an article passes exactly when its
  \<^verbatim>\<open>source_type\<close> is there and is the filter.
\<close>

theorem C9_type_filter:
  "(currentFilter st \<noteq> ''all'' \<longrightarrow>
      keep_v2 st a = (itemType a = currentFilter st \<and> search_filter (searchQuery st) a)) \<and>
   (currentFilter st \<in> {''rss'', ''youtube'', ''blog'', ''nitter''} \<longrightarrow>
      keep_v3 e st a = (itemType a = currentFilter st \<and> search_filter (searchQuery st) a) \<and>
      keep_v5 e st a = (itemType a = currentFilter st \<and> search_filter (searchQuery st) a)) \<and>
   (currentFilter st \<in> {''rss'', ''youtube'', ''newsletter'', ''nitter''} \<longrightarrow>
      keep_v4 e st a = (itemType a = currentFilter st \<and> search_filter (searchQuery st) a)) \<and>
   (\<not> truthy (source_type a) \<longrightarrow> itemType a = ''rss'') \<and>
   (truthy (source_type a) \<longrightarrow> source_type a = Some (itemType a)) \<and>
   (currentFilter st \<noteq> ''all'' \<longrightarrow>
      keep_v1 st a =
        (source_type a = Some (currentFilter st) \<and>
         (searchQuery st = [] \<or> String_includes (searchIn_v1 a) (searchQuery st))))"
proof -
  have v2: "keep_v2 st a = (itemType a = currentFilter st \<and> search_filter (searchQuery st) a)"
    if "currentFilter st \<noteq> ''all''"
    using that by (auto simp: keep_v2_def search_filter_def)
  have v35: "keep_v3 e st a = (itemType a = currentFilter st \<and> search_filter (searchQuery st) a) \<and>
      keep_v5 e st a = (itemType a = currentFilter st \<and> search_filter (searchQuery st) a)"
    if "currentFilter st \<in> {''rss'', ''youtube'', ''blog'', ''nitter''}"
    using that keep_type [of "currentFilter st" st e a] keep_blog [of st e a] by auto
  have v4: "keep_v4 e st a = (itemType a = currentFilter st \<and> search_filter (searchQuery st) a)"
    if "currentFilter st \<in> {''rss'', ''youtube'', ''newsletter'', ''nitter''}"
    using that keep_type [of "currentFilter st" st e a] keep_newsletter [of st e a] by auto
  have absent: "itemType a = ''rss''" if "\<not> truthy (source_type a)"
    using that by (simp add: itemType_def or_else_def template_def)
  have present: "source_type a = Some (itemType a)" if "truthy (source_type a)"
    using that by (cases "source_type a") (simp_all add: itemType_def or_else_def template_def)
  have v1: "keep_v1 st a =
        (source_type a = Some (currentFilter st) \<and>
         (searchQuery st = [] \<or> String_includes (searchIn_v1 a) (searchQuery st)))"
    if "currentFilter st \<noteq> ''all''"
    using that by (auto simp: keep_v1_def)
  from v2 v35 v4 absent present v1 show ?thesis
    by blast
qed

text \<open>An article with every field absent, under the filter \<^verbatim>\<open>rss\<close>: v2 and v5 keep it.\<close>

theorem C9_type_filter_witness:
  "currentFilter (initial_feed\<lparr>currentFilter := ''rss''\<rparr>) \<noteq> ''all'' \<and>
   \<not> truthy (source_type blank) \<and>
   keep_v2 (initial_feed\<lparr>currentFilter := ''rss''\<rparr>) blank \<and>
   keep_v5 sample_env (initial_feed\<lparr>currentFilter := ''rss''\<rparr>) blank"
proof -
  have st: "currentFilter (initial_feed\<lparr>currentFilter := ''rss''\<rparr>) = ''rss''"
           "searchQuery (initial_feed\<lparr>currentFilter := ''rss''\<rparr>) = []"
    by (simp_all add: initial_feed_def)
  have absent: "source_type blank = None"
    by (simp add: blank_def)
  show ?thesis
    using C9_type_filter [of "initial_feed\<lparr>currentFilter := ''rss''\<rparr>" blank sample_env]
    by (simp add: st absent search_filter_def)
qed

text \<open>v1 drops the same article under the same filter.\<close>

theorem C9_counterexample:
  "source_type blank = None \<and>
   currentFilter (initial_feed\<lparr>currentFilter := ''rss''\<rparr>) = ''rss'' \<and>
   \<not> keep_v1 (initial_feed\<lparr>currentFilter := ''rss''\<rparr>) blank"
  by (simp add: keep_v1_def initial_feed_def blank_def)



end
